theory Spec2Isabelle
  imports Main "HOL-Library.Word"
begin

unbundle bit_operations_syntax

section \<open>Frame blocks of libmatroska: matroska/KaxBlock.h\<close>

text \<open>
  A shallow embedding of the classes of \<^verbatim>\<open>matroska/KaxBlock.h\<close>. A class is a record of
  its data members, a member function takes the object and returns the updated object,
  and every way a call can end without returning (a failed \<^verbatim>\<open>assert\<close>, an exception
  that escapes, undefined behaviour) is a value of \<open>abort\<close>.
\<close>

subsection \<open>Ways of not returning\<close>

datatype cxx_exception = bad_alloc

datatype abort =
    AssertionFailure          \<comment> \<open>\<^verbatim>\<open>assert(e)\<close> with \<open>e\<close> false\<close>
  | Thrown cxx_exception      \<comment> \<open>an exception that leaves the function\<close>
  | UndefinedBehaviour        \<comment> \<open>a read or write outside the storage a pointer designates\<close>

type_synonym binary = "8 word"

subsection \<open>The free store\<close>

text \<open>
  \<^verbatim>\<open>new libebml::binary[n]\<close> either returns fresh storage of \<open>n\<close> bytes or throws
  \<^verbatim>\<open>std::bad_alloc\<close>. Which of the two happens is the environment's choice: \<open>heap n\<close>
  says whether a request for \<open>n\<close> bytes is served. The fresh bytes are indeterminate;
  they are written as zeros here and every one of them is overwritten before it is read.
\<close>

definition new_array :: "(nat \<Rightarrow> bool) \<Rightarrow> nat \<Rightarrow> abort + binary list" where
  "new_array heap n = (if heap n then Inr (replicate n 0) else Inl (Thrown bad_alloc))"

text \<open>
  \<^verbatim>\<open>memcpy(dst, src, n)\<close>: a pointer is \<open>None\<close> when null and otherwise the bytes it
  designates. Copying from a null pointer or beyond either storage is undefined.
\<close>

definition memcpy :: "binary list \<Rightarrow> binary list option \<Rightarrow> nat \<Rightarrow> abort + binary list" where
  "memcpy dst src n =
     (case src of
        None \<Rightarrow> Inl UndefinedBehaviour
      | Some bs \<Rightarrow>
          if n \<le> length bs \<and> n \<le> length dst then Inr (take n bs @ drop n dst)
          else Inl UndefinedBehaviour)"

subsection \<open>DataBuffer\<close>

text \<open>
  The data members of \<^verbatim>\<open>DataBuffer\<close>, in the order of the class. \<open>myFreeBuffer\<close> is a
  function pointer: \<open>None\<close> when null, otherwise the name \<open>'cb\<close> of a release function
  whose behaviour the caller's environment gives (\<open>call\<close> below).
\<close>

record 'cb DataBuffer =
  myBuffer :: "binary list option"
  mySize :: "32 word"
  bValidValue :: bool
  myFreeBuffer :: "'cb option"
  bInternalBuffer :: bool

text \<open>
  The constructor. The member initialisers give \<open>myBuffer = nullptr\<close> and
  \<open>bValidValue = true\<close>; the body then either makes a private copy inside a
  \<^verbatim>\<open>try\<close> block whose handler catches \<^verbatim>\<open>std::bad_alloc\<close>, or keeps the caller's pointer.
\<close>

definition DataBuffer_try_block ::
  "(nat \<Rightarrow> bool) \<Rightarrow> binary list option \<Rightarrow> 32 word \<Rightarrow> abort + binary list" where
  "DataBuffer_try_block heap aBuffer n =
     (case new_array heap (unat n) of
        Inl e \<Rightarrow> Inl e
      | Inr fresh \<Rightarrow> memcpy fresh aBuffer (unat n))"

definition DataBuffer_ctor ::
  "(nat \<Rightarrow> bool) \<Rightarrow> binary list option \<Rightarrow> 32 word \<Rightarrow> 'cb option \<Rightarrow> bool
    \<Rightarrow> abort + 'cb DataBuffer" where
  "DataBuffer_ctor heap aBuffer aSize aFreeBuffer internal =
     (let this = \<lparr> myBuffer = None, mySize = aSize, bValidValue = True,
                   myFreeBuffer = aFreeBuffer, bInternalBuffer = internal \<rparr>
      in if bInternalBuffer this then
           (case DataBuffer_try_block heap aBuffer (mySize this) of
              Inr copy \<Rightarrow> Inr (this\<lparr> myBuffer := Some copy \<rparr>)
            | Inl (Thrown bad_alloc) \<Rightarrow> Inr (this\<lparr> bValidValue := False \<rparr>)
            | Inl e \<Rightarrow> Inl e)
         else Inr (this\<lparr> myBuffer := aBuffer \<rparr>))"

text \<open>
  \<^verbatim>\<open>Buffer()\<close> asserts \<open>bValidValue\<close> and returns the pointer; \<^verbatim>\<open>Size()\<close> returns
  \<open>mySize\<close> and has no assertion. Both have a const overload with the same body.
  Assertions are taken as compiled in: a false one ends the call.
\<close>

definition Buffer :: "'cb DataBuffer \<Rightarrow> abort + binary list option" where
  "Buffer this = (if bValidValue this then Inr (myBuffer this) else Inl AssertionFailure)"

definition Size :: "'cb DataBuffer \<Rightarrow> abort + 32 word" where
  "Size this = Inr (mySize this)"

text \<open>
  \<^verbatim>\<open>FreeBuffer(aBuffer)\<close>. What it does beyond changing the object is recorded in a
  trace: a call of the release function, and \<^verbatim>\<open>delete []\<close> of the private copy. The
  release function receives \<open>aBuffer\<close> and answers a \<open>bool\<close>; \<open>call f aBuffer\<close> is that
  answer.
\<close>

datatype 'cb effect = Released 'cb | DeleteArray

definition FreeBuffer ::
  "('cb \<Rightarrow> 'cb DataBuffer \<Rightarrow> bool) \<Rightarrow> 'cb DataBuffer \<Rightarrow> 'cb DataBuffer \<Rightarrow> 'cb effect list
    \<Rightarrow> bool \<times> 'cb DataBuffer \<times> 'cb effect list" where
  "FreeBuffer call this aBuffer tr =
     (if myBuffer this \<noteq> None \<and> bValidValue this then
        (let (bResult, tr1) =
               (case myFreeBuffer this of
                  None \<Rightarrow> (True, tr)
                | Some f \<Rightarrow> (call f aBuffer, tr @ [Released f]));
             tr2 = (if bInternalBuffer this then tr1 @ [DeleteArray] else tr1)
         in (bResult, this\<lparr> myBuffer := None, mySize := 0, bValidValue := False \<rparr>, tr2))
      else (True, this, tr))"

text \<open>Any number of \<^verbatim>\<open>FreeBuffer\<close> calls on one buffer, one argument per call.\<close>

fun FreeBuffer_calls ::
  "('cb \<Rightarrow> 'cb DataBuffer \<Rightarrow> bool) \<Rightarrow> 'cb DataBuffer \<Rightarrow> 'cb DataBuffer list \<Rightarrow> 'cb effect list
    \<Rightarrow> 'cb DataBuffer \<times> 'cb effect list" where
  "FreeBuffer_calls call this [] tr = (this, tr)"
| "FreeBuffer_calls call this (a # as) tr =
     (case FreeBuffer call this a tr of
        (_, this', tr') \<Rightarrow> FreeBuffer_calls call this' as tr')"

text \<open>How often a trace calls a release function, and how often it deletes storage.\<close>

definition release_calls :: "'cb effect list \<Rightarrow> nat" where
  "release_calls tr = length (filter (\<lambda>e. case e of Released _ \<Rightarrow> True | DeleteArray \<Rightarrow> False) tr)"

definition deletions :: "'cb effect list \<Rightarrow> nat" where
  "deletions tr = length (filter (\<lambda>e. case e of Released _ \<Rightarrow> False | DeleteArray \<Rightarrow> True) tr)"

subsection \<open>What the block knows of tracks and clusters\<close>

text \<open>
  Modelled from the spec: \<^verbatim>\<open>KaxTrackEntry\<close> (matroska/KaxTracks.h) and \<^verbatim>\<open>KaxCluster\<close> are
  not among the sources. Section 6 of the specification lists what this header needs of
  them: a track's number and its timestamp scale factor, a cluster's base timestamp and
  its position in the stream. A pointer to a track or a cluster is \<open>None\<close> when null and
  otherwise the object it designates.
\<close>

record KaxTrackEntry =
  track_number :: "16 word"
  track_timestamp_scale :: "64 word"

record KaxCluster =
  cluster_base_timestamp :: "64 word"
  cluster_stream_position :: "64 word"

text \<open>
  Modelled from the spec: the enumerations \<^verbatim>\<open>LacingType\<close> and \<^verbatim>\<open>BlockBlobType\<close> are
  declared in matroska/KaxTypes.h, which is not among the sources. The header uses
  \<^verbatim>\<open>LACING_AUTO\<close> and \<^verbatim>\<open>BLOCK_BLOB_NO_SIMPLE\<close>; the specification names the four lacing
  kinds None, Xiph, FixedSize and EBML, and the three policies force-Group,
  allow-either-defaulting-to-Compact and force-Compact.
\<close>

datatype LacingType = LACING_NONE | LACING_XIPH | LACING_FIXED | LACING_EBML | LACING_AUTO

datatype BlockBlobType = BLOCK_BLOB_NO_SIMPLE | BLOCK_BLOB_SIMPLE_AUTO | BLOCK_BLOB_ALWAYS_SIMPLE

subsection \<open>KaxInternalBlock\<close>

text \<open>
  The data members of \<^verbatim>\<open>KaxInternalBlock\<close>, in the order of the class. \<open>myBuffers\<close> holds
  the frames the block points to, \<open>SizeList\<close> is a vector of \<^verbatim>\<open>std::int32_t\<close>, and
  \<open>LocalTimestamp\<close> is a \<^verbatim>\<open>std::int16_t\<close> (read with \<open>sint\<close>).
\<close>

record 'cb KaxInternalBlock =
  myBuffers :: "'cb DataBuffer list"
  SizeList :: "32 word list"
  Timestamp :: "64 word"
  LocalTimestamp :: "16 word"
  bLocalTimestampUsed :: bool
  TrackNumber :: "16 word"
  mLacing :: LacingType
  mInvisible :: bool
  FirstFrameLocation :: "64 word"
  ParentCluster :: "KaxCluster option"
  bIsSimple :: bool

text \<open>
  Four members have no initialiser (\<open>Timestamp\<close>, \<open>LocalTimestamp\<close>, \<open>TrackNumber\<close>,
  \<open>FirstFrameLocation\<close>): after construction they hold whatever the storage held. The
  constructor takes those values as \<open>indeterminate\<close>, so that nothing can be proved
  about them.
\<close>

record indeterminate =
  any_Timestamp :: "64 word"
  any_LocalTimestamp :: "16 word"
  any_TrackNumber :: "16 word"
  any_FirstFrameLocation :: "64 word"

definition KaxInternalBlock_ctor :: "indeterminate \<Rightarrow> bool \<Rightarrow> 'cb KaxInternalBlock" where
  "KaxInternalBlock_ctor u bSimple =
     \<lparr> myBuffers = [], SizeList = [], Timestamp = any_Timestamp u,
       LocalTimestamp = any_LocalTimestamp u, bLocalTimestampUsed = False,
       TrackNumber = any_TrackNumber u, mLacing = LACING_AUTO, mInvisible = False,
       FirstFrameLocation = any_FirstFrameLocation u, ParentCluster = None,
       bIsSimple = bSimple \<rparr>"

definition SizeIsValid :: "64 word \<Rightarrow> bool" where
  "SizeIsValid sz = (sz \<ge> 4)"

definition TrackNum :: "('cb, 'm) KaxInternalBlock_scheme \<Rightarrow> 16 word" where
  "TrackNum this = TrackNumber this"

text \<open>\<^verbatim>\<open>KaxInternalBlock::GlobalTimestamp() const {return Timestamp;}\<close>\<close>

definition GlobalTimestamp :: "('cb, 'm) KaxInternalBlock_scheme \<Rightarrow> 64 word" where
  "GlobalTimestamp this = Timestamp this"

definition NumberFrames :: "('cb, 'm) KaxInternalBlock_scheme \<Rightarrow> nat" where
  "NumberFrames this = length (SizeList this)"

definition IsInvisible :: "('cb, 'm) KaxInternalBlock_scheme \<Rightarrow> bool" where
  "IsInvisible this = mInvisible this"

definition GetRelativeTimestamp :: "('cb, 'm) KaxInternalBlock_scheme \<Rightarrow> 16 word" where
  "GetRelativeTimestamp this = LocalTimestamp this"

subsection \<open>KaxSimpleBlock\<close>

text \<open>
  \<^verbatim>\<open>KaxSimpleBlock\<close> derives from \<^verbatim>\<open>KaxInternalBlock\<close> and adds two private flags with
  the initialisers \<open>bIsKeyframe{true}\<close> and \<open>bIsDiscardable{false}\<close>; its constructor
  calls the base constructor with \<open>bSimple = true\<close>.
\<close>

record 'cb KaxSimpleBlock = "'cb KaxInternalBlock" +
  bIsKeyframe :: bool
  bIsDiscardable :: bool

definition KaxSimpleBlock_ctor :: "indeterminate \<Rightarrow> 'cb KaxSimpleBlock" where
  "KaxSimpleBlock_ctor u =
     KaxInternalBlock.extend (KaxInternalBlock_ctor u True)
       (KaxSimpleBlock.fields True False)"

definition SetKeyframe :: "bool \<Rightarrow> 'cb KaxSimpleBlock \<Rightarrow> 'cb KaxSimpleBlock" where
  "SetKeyframe b_keyframe this = this\<lparr> bIsKeyframe := b_keyframe \<rparr>"

definition SetDiscardable :: "bool \<Rightarrow> 'cb KaxSimpleBlock \<Rightarrow> 'cb KaxSimpleBlock" where
  "SetDiscardable b_discard this = this\<lparr> bIsDiscardable := b_discard \<rparr>"

definition IsKeyframe :: "'cb KaxSimpleBlock \<Rightarrow> bool" where
  "IsKeyframe this = bIsKeyframe this"

definition IsDiscardable :: "'cb KaxSimpleBlock \<Rightarrow> bool" where
  "IsDiscardable this = bIsDiscardable this"

subsection \<open>KaxBlockGroup\<close>

text \<open>
  \<^verbatim>\<open>KaxBlockGroup\<close> is declared with \<^verbatim>\<open>DECLARE_MKX_MASTER\<close>: a master element whose
  children the element framework holds. The header adds the two back pointers
  \<open>ParentCluster\<close> and \<open>ParentTrack\<close>, both initialised to null.
\<close>

text \<open>
  Modelled from the spec: the children of the master element are not declared in this
  header. Section 3 of the specification gives them: exactly one Block of kind Full, an
  optional duration, and an ordered sequence of reference blocks, each a signed timestamp
  delta. The last two fields are the back pointers of the header.
\<close>

record 'cb KaxBlockGroup =
  group_block :: "'cb KaxInternalBlock"
  group_duration :: "64 word option"
  group_references :: "int list"
  group_ParentCluster :: "KaxCluster option"
  group_ParentTrack :: "KaxTrackEntry option"

text \<open>
  \<^verbatim>\<open>GlobalTimestampScale()\<close> asserts that the parent track is set and asks the track for
  its scale.
\<close>

definition GlobalTimestampScale :: "'cb KaxBlockGroup \<Rightarrow> abort + 64 word" where
  "GlobalTimestampScale this =
     (case group_ParentTrack this of
        None \<Rightarrow> Inl AssertionFailure
      | Some track \<Rightarrow> Inr (track_timestamp_scale track))"

definition SetParentTrack :: "KaxTrackEntry \<Rightarrow> 'cb KaxBlockGroup \<Rightarrow> 'cb KaxBlockGroup" where
  "SetParentTrack aParentTrack this = this\<lparr> group_ParentTrack := Some aParentTrack \<rparr>"

text \<open>
  The value the specification gives for the global timestamp of a block, written from
  its words: \<open>parent_track.timestamp_scale * (cluster.base_timestamp + relative_timestamp)\<close>,
  as a \<open>u64\<close>; the relative timestamp is the block's signed 16-bit \<open>LocalTimestamp\<close>.
\<close>

definition spec_GlobalTimestamp ::
  "KaxTrackEntry \<Rightarrow> KaxCluster \<Rightarrow> ('cb, 'm) KaxInternalBlock_scheme \<Rightarrow> 64 word" where
  "spec_GlobalTimestamp track cluster this =
     track_timestamp_scale track * (cluster_base_timestamp cluster + signed (LocalTimestamp this))"

subsection \<open>KaxBlockBlob\<close>

text \<open>
  The union of the two pointers \<open>group\<close> and \<open>simpleblock\<close>: a pointer is null or
  designates an object of its class. \<open>bUseSimpleBlock\<close> says which member is in use.
\<close>

datatype 'cb block_pointer =
    nullptr
  | group "'cb KaxBlockGroup"
  | simpleblock "'cb KaxSimpleBlock"

record 'cb KaxBlockBlob =
  blob_ParentCluster :: "KaxCluster option"
  Block :: "'cb block_pointer"
  bUseSimpleBlock :: bool
  SimpleBlockMode :: BlockBlobType

definition KaxBlockBlob_ctor :: "BlockBlobType \<Rightarrow> 'cb KaxBlockBlob" where
  "KaxBlockBlob_ctor sblock_mode =
     \<lparr> blob_ParentCluster = None, Block = nullptr,
       bUseSimpleBlock = (sblock_mode \<noteq> BLOCK_BLOB_NO_SIMPLE),
       SimpleBlockMode = sblock_mode \<rparr>"

definition IsSimpleBlock :: "'cb KaxBlockBlob \<Rightarrow> bool" where
  "IsSimpleBlock this = bUseSimpleBlock this"

section \<open>Member functions defined outside the header\<close>

text \<open>
  The header declares the functions of this section and defines none of them; their
  bodies are not among the sources. Each is written from the words of the specification,
  and the text before it quotes them.
\<close>

subsection \<open>KaxInternalBlock::GetBestLacingType\<close>

text \<open>
  Modelled from the spec: the byte accounting of the size tables is missing. Section 4.2
  describes a Xiph size as "a sequence of 255-valued bytes plus a remainder byte" and the
  EBML sizes as a first absolute size followed by "signed variable-length size deltas";
  the variable-length integer coder belongs to the element framework (section 6), and
  section 9 says that the byte accounting is not specified and that the property pins
  the comparative behaviour only. The three lengths are therefore parameters: the bytes
  one Xiph size takes, the bytes an absolute size takes, and the bytes a signed delta
  takes.
\<close>

record byte_accounting =
  XiphCodedLength :: "int \<Rightarrow> nat"
  CodedSizeLength :: "int \<Rightarrow> nat"
  CodedSizeLengthSigned :: "int \<Rightarrow> nat"

text \<open>
  Modelled from the spec: the frame-size sequence of a block, "frame_sizes: ordered
  sequence of i32 aligned with frames" (section 3), read from \<open>SizeList\<close>.
\<close>

definition frame_sizes :: "('cb, 'm) KaxInternalBlock_scheme \<Rightarrow> int list" where
  "frame_sizes this = map sint (SizeList this)"

text \<open>Modelled from the spec: "all frame sizes equal", checked on neighbouring frames.\<close>

fun SameSize :: "int list \<Rightarrow> bool" where
  "SameSize (a # b # rest) = (a = b \<and> SameSize (b # rest))"
| "SameSize _ = True"

text \<open>
  Modelled from the spec: the encoded size of the Xiph table, each size "for every frame
  but the last".
\<close>

definition XiphLacingSize :: "byte_accounting \<Rightarrow> int list \<Rightarrow> nat" where
  "XiphLacingSize acc sizes = sum_list (map (XiphCodedLength acc) (butlast sizes))"

text \<open>Modelled from the spec: the differences between each size and the one before it.\<close>

fun size_deltas :: "int list \<Rightarrow> int list" where
  "size_deltas (a # b # rest) = (b - a) # size_deltas (b # rest)"
| "size_deltas _ = []"

text \<open>
  Modelled from the spec: the encoded size of the EBML table, "first frame's absolute
  size, then signed variable-length size deltas for subsequent frames, for every frame
  but the last".
\<close>

definition EbmlLacingSize :: "byte_accounting \<Rightarrow> int list \<Rightarrow> nat" where
  "EbmlLacingSize acc sizes =
     (case butlast sizes of
        [] \<Rightarrow> 0
      | first # rest \<Rightarrow>
          CodedSizeLength acc first +
          sum_list (map (CodedSizeLengthSigned acc) (size_deltas (first # rest))))"

text \<open>
  Modelled from the spec: \<^verbatim>\<open>GetBestLacingType\<close> (declared at line 226), section 4.2:
  "\<open>frames.len() == 1\<close> gives None; all frame sizes equal gives FixedSize; otherwise,
  compute encoded size of Xiph and of EBML; pick whichever total is smaller; on an exact
  tie prefer EBML".
\<close>

definition GetBestLacingType ::
  "byte_accounting \<Rightarrow> ('cb, 'm) KaxInternalBlock_scheme \<Rightarrow> LacingType" where
  "GetBestLacingType acc this =
     (let sizes = frame_sizes this
      in if length sizes = 1 then LACING_NONE
         else if SameSize sizes then LACING_FIXED
         else if XiphLacingSize acc sizes < EbmlLacingSize acc sizes then LACING_XIPH
         else LACING_EBML)"

text \<open>
  Modelled from the spec: which frame-size sequences a kind can express, computed apart
  from \<^verbatim>\<open>GetBestLacingType\<close>. None is for a single frame ("no table needed"), FixedSize
  for frames that all have one size ("store frame count + one size value"), and the Xiph
  and EBML tables list the sizes, whatever they are. \<^verbatim>\<open>LACING_AUTO\<close> is a request, not a
  kind of encoding.
\<close>

fun lacing_expresses :: "LacingType \<Rightarrow> int list \<Rightarrow> bool" where
  "lacing_expresses LACING_NONE sizes = (length sizes = 1)"
| "lacing_expresses LACING_FIXED sizes = list_all (\<lambda>a. list_all (\<lambda>b. a = b) sizes) sizes"
| "lacing_expresses LACING_XIPH sizes = True"
| "lacing_expresses LACING_EBML sizes = True"
| "lacing_expresses LACING_AUTO sizes = False"

text \<open>
  Modelled from the spec: the encoded size of the size table of a kind, for the two kinds
  that have one.
\<close>

fun lacing_table_size :: "byte_accounting \<Rightarrow> LacingType \<Rightarrow> int list \<Rightarrow> nat" where
  "lacing_table_size acc LACING_XIPH sizes = XiphLacingSize acc sizes"
| "lacing_table_size acc LACING_EBML sizes = EbmlLacingSize acc sizes"
| "lacing_table_size acc _ sizes = 0"

subsection \<open>KaxInternalBlock::AddFrame\<close>

text \<open>Modelled from the spec: "fits a signed 16-bit value".\<close>

definition fits_int16 :: "int \<Rightarrow> bool" where
  "fits_int16 delta = (- 32768 \<le> delta \<and> delta \<le> 32767)"

text \<open>
  Modelled from the spec: \<open>encode_relative(timestamp, base_timestamp,
  cluster.base_timestamp)\<close> is named in section 4.2 and defined nowhere. Section 3 defines
  the relative timestamp as the "delta from the owning cluster's base timestamp", and
  section 7 speaks of "a frame's relative timestamp": the delta is the frame's timestamp
  minus the cluster's base timestamp, as an integer. The block's own base timestamp does
  not enter it.
\<close>

definition encode_relative :: "64 word \<Rightarrow> 64 word \<Rightarrow> 64 word \<Rightarrow> int" where
  "encode_relative timestamp base_timestamp cluster_base = uint timestamp - uint cluster_base"

text \<open>
  Modelled from the spec: \<^verbatim>\<open>AddFrame\<close> (declared at line 214), section 4.2: "first frame
  sets \<open>base_timestamp = timestamp\<close> and \<open>track_number = track.number\<close>; every call
  computes \<open>delta\<close>; fails (returns false) if \<open>delta\<close> does not fit a signed 16-bit value,
  if \<open>track.number != track_number\<close> (when already set), or if the buffer is invalid. On
  success the buffer and its size are appended", and section 7: on a failure "the frame
  is not appended and no state changes", so every check comes before the first write.
  The block reads the base timestamp of its parent cluster; with no parent cluster set
  the call is a fault (section 7: "reading a field from a never-initialized parent").
  The specification says nothing of what the call does with \<open>lacing\<close> and \<open>invisible\<close>.
\<close>

definition AddFrame ::
  "KaxTrackEntry \<Rightarrow> 64 word \<Rightarrow> 'cb DataBuffer \<Rightarrow> LacingType \<Rightarrow> bool
    \<Rightarrow> ('cb, 'm) KaxInternalBlock_scheme
    \<Rightarrow> abort + bool \<times> ('cb, 'm) KaxInternalBlock_scheme" where
  "AddFrame track timestamp buffer lacing invisible this =
     (case ParentCluster this of
        None \<Rightarrow> Inl AssertionFailure
      | Some cluster \<Rightarrow>
          (let first = (myBuffers this = []);
               base = (if first then timestamp else Timestamp this);
               number = (if first then track_number track else TrackNumber this);
               delta = encode_relative timestamp base (cluster_base_timestamp cluster)
           in if \<not> fits_int16 delta then Inr (False, this)
              else if track_number track \<noteq> number then Inr (False, this)
              else if \<not> bValidValue buffer then Inr (False, this)
              else Inr (True, this\<lparr> myBuffers := myBuffers this @ [buffer],
                                     SizeList := SizeList this @ [mySize buffer],
                                     Timestamp := base, TrackNumber := number \<rparr>)))"

subsection \<open>KaxBlockBlob::ReplaceSimpleByGroup\<close>

text \<open>
  Modelled from the spec: the constructor of \<^verbatim>\<open>KaxBlockGroup\<close> comes from the macro
  \<^verbatim>\<open>DECLARE_MKX_MASTER\<close>, which is not among the sources. A new group holds a new Full
  block with no frames, no duration and no references; the header initialises both back
  pointers to null.
\<close>

definition KaxBlockGroup_ctor :: "indeterminate \<Rightarrow> 'cb KaxBlockGroup" where
  "KaxBlockGroup_ctor u =
     \<lparr> group_block = KaxInternalBlock_ctor u False, group_duration = None,
       group_references = [], group_ParentCluster = None, group_ParentTrack = None \<rparr>"

text \<open>
  Modelled from the spec: \<^verbatim>\<open>ReferenceCount\<close> (declared at line 163), section 4.3: the
  number of entries in "the ordered list of recorded past/forward reference deltas".
\<close>

definition ReferenceCount :: "'cb KaxBlockGroup \<Rightarrow> nat" where
  "ReferenceCount this = length (group_references this)"

text \<open>
  Modelled from the spec: "allocate a new Group, copy over frames/timestamp/track,
  discard keyframe/discardable flags" (section 4.5). The frames are the buffers and their
  sizes; the timestamp is the absolute one and the relative one.
\<close>

definition group_of_simpleblock :: "indeterminate \<Rightarrow> 'cb KaxSimpleBlock \<Rightarrow> 'cb KaxBlockGroup" where
  "group_of_simpleblock u old =
     (let fresh = KaxBlockGroup_ctor u
      in fresh\<lparr> group_block := (group_block fresh)
                  \<lparr> myBuffers := myBuffers old, SizeList := SizeList old,
                    Timestamp := Timestamp old, LocalTimestamp := LocalTimestamp old,
                    TrackNumber := TrackNumber old \<rparr> \<rparr>)"

text \<open>
  Modelled from the spec: which construction policies permit a later conversion.
  Section 4.5: "Construction policy selects which variant is instantiated and whether
  future conversion is permitted"; section 3 names the policies force-Group,
  force-Compact and allow-either-defaulting-to-Compact. A handle forced to Compact may
  not be converted; the other two policies permit it.
\<close>

definition conversion_permitted :: "BlockBlobType \<Rightarrow> bool" where
  "conversion_permitted policy = (policy \<noteq> BLOCK_BLOB_ALWAYS_SIMPLE)"

text \<open>
  Modelled from the spec: \<^verbatim>\<open>ReplaceSimpleByGroup\<close> (declared at line 324), section 4.5:
  "if currently Compact, allocate a new Group, copy over frames/timestamp/track, discard
  keyframe/discardable flags, and swap the live variant to Group; if already a Group,
  this is a no-op returning success". The conversion takes place only where the policy
  the handle was constructed with (\<open>SimpleBlockMode\<close>) permits it; where it does not, the
  call changes nothing and returns failure. A handle in Compact mode whose pointer is
  still null has nothing to copy and gets a new, empty Group.
\<close>

definition ReplaceSimpleByGroup ::
  "indeterminate \<Rightarrow> 'cb KaxBlockBlob \<Rightarrow> bool \<times> 'cb KaxBlockBlob" where
  "ReplaceSimpleByGroup u this =
     (if bUseSimpleBlock this then
        (if conversion_permitted (SimpleBlockMode this) then
           (case Block this of
              simpleblock old \<Rightarrow>
                (True, this\<lparr> Block := group (group_of_simpleblock u old),
                             bUseSimpleBlock := False \<rparr>)
            | _ \<Rightarrow>
                (True, this\<lparr> Block := group (KaxBlockGroup_ctor u),
                             bUseSimpleBlock := False \<rparr>))
         else (False, this))
      else (True, this))"

subsection \<open>KaxInternalBlock::RenderData, for a Compact block\<close>

text \<open>
  Modelled from the spec: the coders \<^verbatim>\<open>RenderData\<close> writes with are missing. Section 4.2
  gives the parts of the output and their order: the head ("track number VINT, 16-bit
  relative timestamp, flags byte"), the lacing table, the frame payloads. The
  variable-length integer coder belongs to the element framework (section 6), and the
  specification fixes neither a byte order nor a bit of the flags byte. They are
  parameters: the bytes of a track number, the bytes of a relative timestamp, the bits
  of the flags byte that the lacing kind and the invisible flag take, the positions of
  the keyframe bit and of the discardable bit, and the bytes of the size table of a
  lacing kind.
\<close>

record wire_format =
  track_number_bytes :: "16 word \<Rightarrow> binary list"
  timestamp_bytes :: "16 word \<Rightarrow> binary list"
  lacing_bits :: "LacingType \<Rightarrow> bool \<Rightarrow> 8 word"
  keyframe_bit :: nat
  discardable_bit :: nat
  size_table :: "LacingType \<Rightarrow> int list \<Rightarrow> binary list"

text \<open>
  Modelled from the spec: a layout of the flags byte in which each flag can be told
  apart: the keyframe bit and the discardable bit are two bits of the byte, and no lacing
  kind and no invisible flag writes either of them.
\<close>

definition flags_layout_ok :: "wire_format \<Rightarrow> bool" where
  "flags_layout_ok W =
     (keyframe_bit W < 8 \<and> discardable_bit W < 8 \<and> keyframe_bit W \<noteq> discardable_bit W \<and>
      list_all
        (\<lambda>kind. list_all
           (\<lambda>invisible.
              \<not> bit (lacing_bits W kind invisible) (keyframe_bit W) \<and>
              \<not> bit (lacing_bits W kind invisible) (discardable_bit W))
           [False, True])
        [LACING_NONE, LACING_XIPH, LACING_FIXED, LACING_EBML, LACING_AUTO])"

text \<open>
  Modelled from the spec: the flags byte of a Compact block, section 4.4: "the rendered
  head byte additionally encodes \<open>is_keyframe\<close>/\<open>is_discardable\<close>", next to the lacing
  kind and the invisible flag of the block.
\<close>

definition head_flags :: "wire_format \<Rightarrow> 'cb KaxSimpleBlock \<Rightarrow> 8 word" where
  "head_flags W this =
     lacing_bits W (mLacing this) (mInvisible this)
     OR (if IsKeyframe this then push_bit (keyframe_bit W) 1 else 0)
     OR (if IsDiscardable this then push_bit (discardable_bit W) 1 else 0)"

text \<open>
  Modelled from the spec: the head, "track number VINT, 16-bit relative timestamp, flags
  byte", and the place of the flags byte in it.
\<close>

definition RenderHead :: "wire_format \<Rightarrow> 'cb KaxSimpleBlock \<Rightarrow> binary list" where
  "RenderHead W this =
     track_number_bytes W (TrackNumber this) @ timestamp_bytes W (LocalTimestamp this)
       @ [head_flags W this]"

definition flags_position :: "wire_format \<Rightarrow> 'cb KaxSimpleBlock \<Rightarrow> nat" where
  "flags_position W this =
     length (track_number_bytes W (TrackNumber this))
       + length (timestamp_bytes W (LocalTimestamp this))"

text \<open>
  Modelled from the spec: the payload of one frame, the first \<^verbatim>\<open>Size()\<close> bytes behind
  \<^verbatim>\<open>Buffer()\<close>. Reading through a null pointer or beyond the storage is undefined.
\<close>

definition frame_payload :: "'cb DataBuffer \<Rightarrow> abort + binary list" where
  "frame_payload buffer =
     (case Buffer buffer of
        Inl e \<Rightarrow> Inl e
      | Inr None \<Rightarrow> Inl UndefinedBehaviour
      | Inr (Some bytes) \<Rightarrow>
          (case Size buffer of
             Inl e \<Rightarrow> Inl e
           | Inr n \<Rightarrow>
               if unat n \<le> length bytes then Inr (take (unat n) bytes)
               else Inl UndefinedBehaviour))"

text \<open>Modelled from the spec: "each frame payload in order".\<close>

fun frame_payloads :: "'cb DataBuffer list \<Rightarrow> abort + binary list" where
  "frame_payloads [] = Inr []"
| "frame_payloads (buffer # rest) =
     (case frame_payload buffer of
        Inl e \<Rightarrow> Inl e
      | Inr payload \<Rightarrow>
          (case frame_payloads rest of
             Inl e \<Rightarrow> Inl e
           | Inr payloads \<Rightarrow> Inr (payload @ payloads)))"

text \<open>
  Modelled from the spec: \<^verbatim>\<open>RenderData\<close> (declared at line 266) on a Compact block,
  section 4.2: "writes head, lacing table (if any), then each frame payload in order".
  The result is the bytes written; the lacing kind is the one the block holds.
\<close>

definition RenderData :: "wire_format \<Rightarrow> 'cb KaxSimpleBlock \<Rightarrow> abort + binary list" where
  "RenderData W this =
     (case frame_payloads (myBuffers this) of
        Inl e \<Rightarrow> Inl e
      | Inr payloads \<Rightarrow>
          Inr (RenderHead W this @ size_table W (mLacing this) (frame_sizes this) @ payloads))"

section \<open>Theorems\<close>

subsection \<open>DataBuffer\<close>

lemma FreeBuffer_released:
  "FreeBuffer call b a tr = (r, b1, t1) \<Longrightarrow> myBuffer b1 = None \<or> \<not> bValidValue b1"
  by (auto simp: FreeBuffer_def Let_def split: if_splits option.splits prod.splits)

lemma FreeBuffer_noop:
  "myBuffer b = None \<or> \<not> bValidValue b \<Longrightarrow> FreeBuffer call b a tr = (True, b, tr)"
  by (auto simp: FreeBuffer_def)

lemma FreeBuffer_calls_noop:
  "myBuffer b = None \<or> \<not> bValidValue b \<Longrightarrow> FreeBuffer_calls call b as tr = (b, tr)"
  by (induction as) (auto simp: FreeBuffer_noop)

lemma FreeBuffer_first_effects:
  "FreeBuffer call b a [] = (r, b1, t1) \<Longrightarrow> release_calls t1 \<le> 1 \<and> deletions t1 \<le> 1"
  by (auto simp: FreeBuffer_def Let_def release_calls_def deletions_def
           split: if_splits option.splits prod.splits)

lemma FreeBuffer_calls_effects:
  "release_calls (snd (FreeBuffer_calls call b as [])) \<le> 1 \<and>
   deletions (snd (FreeBuffer_calls call b as [])) \<le> 1"
proof (cases as)
  case Nil
  then show ?thesis by (simp add: release_calls_def deletions_def)
next
  case (Cons a rest)
  obtain r b1 t1 where first: "FreeBuffer call b a [] = (r, b1, t1)"
    by (cases "FreeBuffer call b a []") auto
  have "FreeBuffer_calls call b1 rest t1 = (b1, t1)"
    by (rule FreeBuffer_calls_noop [OF FreeBuffer_released [OF first]])
  with Cons first FreeBuffer_first_effects [OF first] show ?thesis by simp
qed

text \<open>
  C7. Release is idempotent-safe. Whatever the first \<^verbatim>\<open>FreeBuffer\<close> call did, every
  further call, with any argument, returns \<open>true\<close> and leaves the buffer and the trace of
  effects as they were; and over any sequence of calls on a buffer the release function
  is called at most once and the storage is deleted at most once.
\<close>

theorem FreeBuffer_idempotent:
  "FreeBuffer call b a tr = (r, b1, t1) \<Longrightarrow>
     FreeBuffer call b1 a' t1 = (True, b1, t1) \<and>
     FreeBuffer_calls call b1 as t1 = (b1, t1) \<and>
     release_calls (snd (FreeBuffer_calls call b (a # as) [])) \<le> 1 \<and>
     deletions (snd (FreeBuffer_calls call b (a # as) [])) \<le> 1"
  using FreeBuffer_noop [OF FreeBuffer_released] FreeBuffer_calls_noop [OF FreeBuffer_released]
    FreeBuffer_calls_effects [of call b "a # as"]
  by blast

theorem FreeBuffer_idempotent_witness:
  "FreeBuffer (\<lambda>f a. f)
       \<lparr> myBuffer = Some [1, 2, 3], mySize = 3, bValidValue = True,
         myFreeBuffer = Some False, bInternalBuffer = True \<rparr>
       \<lparr> myBuffer = Some [1, 2, 3], mySize = 3, bValidValue = True,
         myFreeBuffer = Some False, bInternalBuffer = True \<rparr> []
     = (False,
        \<lparr> myBuffer = None, mySize = 0, bValidValue = False,
          myFreeBuffer = Some False, bInternalBuffer = True \<rparr>,
        [Released False, DeleteArray]) \<and>
   FreeBuffer (\<lambda>f a. f)
       \<lparr> myBuffer = None, mySize = 0, bValidValue = False,
         myFreeBuffer = Some False, bInternalBuffer = True \<rparr>
       \<lparr> myBuffer = None, mySize = 0, bValidValue = False,
         myFreeBuffer = Some False, bInternalBuffer = True \<rparr>
       [Released False, DeleteArray]
     = (True,
        \<lparr> myBuffer = None, mySize = 0, bValidValue = False,
          myFreeBuffer = Some False, bInternalBuffer = True \<rparr>,
        [Released False, DeleteArray])"
proof -
  let ?b = "\<lparr> myBuffer = Some [1, 2, 3], mySize = 3, bValidValue = True,
              myFreeBuffer = Some False, bInternalBuffer = True \<rparr>"
  let ?b1 = "\<lparr> myBuffer = None, mySize = 0, bValidValue = False,
               myFreeBuffer = Some False, bInternalBuffer = True \<rparr>"
  have first: "FreeBuffer (\<lambda>f a. f) ?b ?b [] = (False, ?b1, [Released False, DeleteArray])"
    by (simp add: FreeBuffer_def)
  from FreeBuffer_idempotent [OF first, of ?b1 "[]"] first show ?thesis by simp
qed

text \<open>
  C8. When the allocation of the private copy fails, the constructor of an owning buffer
  returns normally (no exception leaves it) and the buffer it built is marked invalid,
  with a null pointer.
\<close>

theorem DataBuffer_ctor_alloc_failure:
  "\<not> heap (unat aSize) \<Longrightarrow>
     DataBuffer_ctor heap aBuffer aSize aFreeBuffer True =
       Inr \<lparr> myBuffer = None, mySize = aSize, bValidValue = False,
             myFreeBuffer = aFreeBuffer, bInternalBuffer = True \<rparr>"
  by (simp add: DataBuffer_ctor_def DataBuffer_try_block_def new_array_def)

theorem DataBuffer_ctor_alloc_failure_witness:
  "\<not> (\<lambda>n. n < 4) (unat (5 :: 32 word)) \<and>
   DataBuffer_ctor (\<lambda>n. n < 4) (Some [1, 2, 3, 4, 5]) 5 (None :: unit option) True =
     Inr \<lparr> myBuffer = None, mySize = 5, bValidValue = False,
           myFreeBuffer = None, bInternalBuffer = True \<rparr>"
  using DataBuffer_ctor_alloc_failure [of "\<lambda>n. n < 4" 5 "Some [1, 2, 3, 4, 5]" "None :: unit option"]
  by simp

text \<open>
  C5, as the specification states it, fails for \<^verbatim>\<open>Size()\<close>: on a buffer that has been
  released, \<^verbatim>\<open>Size()\<close> returns 0 and raises nothing.
\<close>

theorem Size_released_counterexample:
  "bValidValue (fst (snd (FreeBuffer (\<lambda>f a. True)
       \<lparr> myBuffer = Some [1, 2, 3], mySize = 3, bValidValue = True,
         myFreeBuffer = (None :: unit option), bInternalBuffer = False \<rparr>
       \<lparr> myBuffer = Some [1, 2, 3], mySize = 3, bValidValue = True,
         myFreeBuffer = None, bInternalBuffer = False \<rparr> []))) = False \<and>
   Size (fst (snd (FreeBuffer (\<lambda>f a. True)
       \<lparr> myBuffer = Some [1, 2, 3], mySize = 3, bValidValue = True,
         myFreeBuffer = (None :: unit option), bInternalBuffer = False \<rparr>
       \<lparr> myBuffer = Some [1, 2, 3], mySize = 3, bValidValue = True,
         myFreeBuffer = None, bInternalBuffer = False \<rparr> []))) = Inr 0"
  by (simp add: FreeBuffer_def Size_def)

text \<open>
  C5, amended. On a buffer that has been released, or that was constructed invalid
  because the allocation failed, \<^verbatim>\<open>Buffer()\<close> is a failed assertion. \<^verbatim>\<open>Size()\<close> is not
  guarded: it returns the stored size, which is 0 after a release and the requested size
  after a failed construction.
\<close>

theorem invalid_buffer_access:
  "(myBuffer b \<noteq> None \<and> bValidValue b \<and> FreeBuffer call b a tr = (r, b1, t1) \<longrightarrow>
      Buffer b1 = Inl AssertionFailure \<and> Size b1 = Inr 0) \<and>
   (\<not> heap (unat aSize) \<and> DataBuffer_ctor heap aBuffer aSize aFreeBuffer True = Inr b2 \<longrightarrow>
      Buffer b2 = Inl AssertionFailure \<and> Size b2 = Inr aSize) \<and>
   (\<not> bValidValue b3 \<longrightarrow> Buffer b3 = Inl AssertionFailure \<and> Size b3 = Inr (mySize b3))"
  by (auto simp: FreeBuffer_def Let_def Buffer_def Size_def DataBuffer_ctor_def
        DataBuffer_try_block_def new_array_def split: option.splits prod.splits)

text \<open>
  The witness releases a buffer of three bytes that the caller owns, and constructs an
  owning buffer of five bytes on a free store that serves fewer than four.
\<close>

theorem invalid_buffer_access_witness:
  "FreeBuffer (\<lambda>f a. True)
       \<lparr> myBuffer = Some [1, 2, 3], mySize = 3, bValidValue = True,
         myFreeBuffer = (None :: unit option), bInternalBuffer = False \<rparr>
       \<lparr> myBuffer = Some [1, 2, 3], mySize = 3, bValidValue = True,
         myFreeBuffer = (None :: unit option), bInternalBuffer = False \<rparr> []
     = (True,
        \<lparr> myBuffer = None, mySize = 0, bValidValue = False,
          myFreeBuffer = (None :: unit option), bInternalBuffer = False \<rparr>, []) \<and>
   Buffer \<lparr> myBuffer = None, mySize = 0, bValidValue = False,
            myFreeBuffer = (None :: unit option), bInternalBuffer = False \<rparr>
     = Inl AssertionFailure \<and>
   Size \<lparr> myBuffer = None, mySize = 0, bValidValue = False,
          myFreeBuffer = (None :: unit option), bInternalBuffer = False \<rparr> = Inr 0 \<and>
   DataBuffer_ctor (\<lambda>n. n < 4) (Some [1, 2, 3, 4, 5]) 5 (None :: unit option) True
     = Inr \<lparr> myBuffer = None, mySize = 5, bValidValue = False,
             myFreeBuffer = (None :: unit option), bInternalBuffer = True \<rparr> \<and>
   Buffer \<lparr> myBuffer = None, mySize = 5, bValidValue = False,
            myFreeBuffer = (None :: unit option), bInternalBuffer = True \<rparr>
     = Inl AssertionFailure \<and>
   Size \<lparr> myBuffer = None, mySize = 5, bValidValue = False,
          myFreeBuffer = (None :: unit option), bInternalBuffer = True \<rparr> = Inr 5"
proof -
  let ?b = "\<lparr> myBuffer = Some [1, 2, 3], mySize = 3, bValidValue = True,
              myFreeBuffer = (None :: unit option), bInternalBuffer = False \<rparr>"
  let ?b1 = "\<lparr> myBuffer = None, mySize = 0, bValidValue = False,
               myFreeBuffer = (None :: unit option), bInternalBuffer = False \<rparr>"
  let ?b2 = "\<lparr> myBuffer = None, mySize = 5, bValidValue = False,
               myFreeBuffer = (None :: unit option), bInternalBuffer = True \<rparr>"
  have released: "FreeBuffer (\<lambda>f a. True) ?b ?b [] = (True, ?b1, [])"
    by (simp add: FreeBuffer_def)
  have failed: "DataBuffer_ctor (\<lambda>n. n < 4) (Some [1, 2, 3, 4, 5]) 5 None True = Inr ?b2"
    by (simp add: DataBuffer_ctor_def DataBuffer_try_block_def new_array_def)
  from invalid_buffer_access
         [of ?b "\<lambda>f a. True" ?b "[]" True ?b1 "[]" "\<lambda>n. n < 4" 5 "Some [1, 2, 3, 4, 5]" None ?b2 ?b2]
       released failed
  show ?thesis by simp
qed

subsection \<open>KaxInternalBlock and KaxSimpleBlock\<close>

text \<open>
  C9. \<^verbatim>\<open>SizeIsValid(n)\<close> is false exactly when \<open>n\<close> is smaller than 4, the size of the
  fixed head, and true otherwise.
\<close>

theorem SizeIsValid_iff: "(\<not> SizeIsValid n) = (unat n < 4) \<and> SizeIsValid n = (4 \<le> unat n)"
  by (auto simp: SizeIsValid_def word_le_nat_alt)

lemma flags_layout_ok_bits:
  assumes "flags_layout_ok W"
  shows "\<not> bit (lacing_bits W kind invisible) (keyframe_bit W)"
    and "\<not> bit (lacing_bits W kind invisible) (discardable_bit W)"
  using assms by (cases kind; cases invisible; simp add: flags_layout_ok_def)+

lemma head_flags_bits:
  assumes "flags_layout_ok W"
  shows "bit (head_flags W this) (keyframe_bit W) = IsKeyframe this"
    and "bit (head_flags W this) (discardable_bit W) = IsDiscardable this"
proof -
  have pos: "keyframe_bit W < 8" "discardable_bit W < 8"
    "keyframe_bit W \<noteq> discardable_bit W"
    using assms by (simp_all add: flags_layout_ok_def)
  show "bit (head_flags W this) (keyframe_bit W) = IsKeyframe this"
    using pos flags_layout_ok_bits(1) [OF assms]
    by (simp add: head_flags_def bit_or_iff bit_exp_iff possible_bit_word)
  show "bit (head_flags W this) (discardable_bit W) = IsDiscardable this"
    using pos flags_layout_ok_bits(2) [OF assms]
    by (simp add: head_flags_def bit_or_iff bit_exp_iff possible_bit_word)
qed

lemma RenderData_flags_byte:
  "RenderData W this = Inr bytes \<Longrightarrow> bytes ! flags_position W this = head_flags W this"
  by (auto simp: RenderData_def RenderHead_def flags_position_def nth_append
           split: sum.splits)

lemma RenderData_marks:
  assumes "flags_layout_ok W" and "RenderData W this = Inr bytes"
  shows "bit (bytes ! flags_position W this) (keyframe_bit W) = IsKeyframe this \<and>
         bit (bytes ! flags_position W this) (discardable_bit W) = IsDiscardable this"
  using head_flags_bits [OF assms(1), of this] RenderData_flags_byte [OF assms(2)] by simp

lemma AddFrame_keeps_flags:
  "AddFrame track timestamp buffer lacing invisible this = Inr (ok, this') \<Longrightarrow>
     bIsKeyframe this' = bIsKeyframe this \<and> bIsDiscardable this' = bIsDiscardable this"
  by (auto simp: AddFrame_def Let_def split: option.splits if_splits)

text \<open>
  C10. A newly constructed \<^verbatim>\<open>KaxSimpleBlock\<close> is a keyframe and is not discardable, and
  the flags keep these values until their own setter is called: each setter changes its
  flag and leaves the other one alone, and adding a frame changes neither. The flags
  byte that \<^verbatim>\<open>RenderData\<close> writes carries the two flags as the block holds them, so a
  block that is constructed, given a frame and rendered, with no setter called, is marked
  as a keyframe and as not discardable in the rendered bytes.
\<close>

theorem KaxSimpleBlock_default_flags:
  "IsKeyframe (KaxSimpleBlock_ctor u) \<and> \<not> IsDiscardable (KaxSimpleBlock_ctor u) \<and>
   bIsSimple (KaxSimpleBlock_ctor u) \<and>
   IsKeyframe (SetDiscardable d (KaxSimpleBlock_ctor u)) \<and>
   \<not> IsDiscardable (SetKeyframe k (KaxSimpleBlock_ctor u)) \<and>
   IsKeyframe (SetKeyframe k this) = k \<and>
   IsDiscardable (SetDiscardable d this) = d \<and>
   (AddFrame track timestamp buffer lacing invisible this = Inr (ok, this') \<longrightarrow>
      IsKeyframe this' = IsKeyframe this \<and> IsDiscardable this' = IsDiscardable this) \<and>
   (flags_layout_ok W \<and> RenderData W this = Inr bytes \<longrightarrow>
      bit (bytes ! flags_position W this) (keyframe_bit W) = IsKeyframe this \<and>
      bit (bytes ! flags_position W this) (discardable_bit W) = IsDiscardable this) \<and>
   (flags_layout_ok W \<and>
    AddFrame track1 timestamp1 buffer1 lacing1 invisible1
      ((KaxSimpleBlock_ctor u)\<lparr> ParentCluster := Some cluster \<rparr>) = Inr (ok1, block1) \<and>
    RenderData W block1 = Inr bytes1 \<longrightarrow>
      bit (bytes1 ! flags_position W block1) (keyframe_bit W) \<and>
      \<not> bit (bytes1 ! flags_position W block1) (discardable_bit W))"
proof -
  have fresh: "IsKeyframe (KaxSimpleBlock_ctor u) \<and> \<not> IsDiscardable (KaxSimpleBlock_ctor u) \<and>
      bIsSimple (KaxSimpleBlock_ctor u) \<and>
      IsKeyframe (SetDiscardable d (KaxSimpleBlock_ctor u)) \<and>
      \<not> IsDiscardable (SetKeyframe k (KaxSimpleBlock_ctor u)) \<and>
      IsKeyframe (SetKeyframe k this) = k \<and>
      IsDiscardable (SetDiscardable d this) = d"
    by (simp add: KaxSimpleBlock_ctor_def KaxInternalBlock_ctor_def IsKeyframe_def
          IsDiscardable_def SetKeyframe_def SetDiscardable_def
          KaxInternalBlock.extend_def KaxSimpleBlock.fields_def)
  have added: "IsKeyframe this' = IsKeyframe this \<and> IsDiscardable this' = IsDiscardable this"
    if "AddFrame track timestamp buffer lacing invisible this = Inr (ok, this')"
    using AddFrame_keeps_flags [OF that] by (simp add: IsKeyframe_def IsDiscardable_def)
  have rendered: "bit (bytes ! flags_position W this) (keyframe_bit W) = IsKeyframe this \<and>
      bit (bytes ! flags_position W this) (discardable_bit W) = IsDiscardable this"
    if "flags_layout_ok W" "RenderData W this = Inr bytes"
    using that by (rule RenderData_marks)
  have chain: "bit (bytes1 ! flags_position W block1) (keyframe_bit W) \<and>
      \<not> bit (bytes1 ! flags_position W block1) (discardable_bit W)"
    if ok: "flags_layout_ok W"
      and add: "AddFrame track1 timestamp1 buffer1 lacing1 invisible1
        ((KaxSimpleBlock_ctor u)\<lparr> ParentCluster := Some cluster \<rparr>) = Inr (ok1, block1)"
      and ren: "RenderData W block1 = Inr bytes1"
  proof -
    have "bIsKeyframe block1 \<and> \<not> bIsDiscardable block1"
      using AddFrame_keeps_flags [OF add]
      by (simp add: KaxSimpleBlock_ctor_def KaxInternalBlock.extend_def
            KaxSimpleBlock.fields_def)
    then show ?thesis
      using RenderData_marks [OF ok ren] by (simp add: IsKeyframe_def IsDiscardable_def)
  qed
  from fresh added rendered chain show ?thesis by blast
qed

text \<open>
  The witness renders a block of one frame of three bytes on track 1, with the layout of
  the flags byte of the Matroska format (keyframe in bit 7, discardable in bit 0,
  invisible in bit 3, the lacing kind in bits 1 and 2), a one-byte track number and a
  big-endian timestamp. The fourth byte written is the flags byte, 128.
\<close>

theorem KaxSimpleBlock_default_flags_witness:
  "flags_layout_ok
     \<lparr> track_number_bytes = (\<lambda>n. [ucast n OR 128]),
       timestamp_bytes = (\<lambda>t. [ucast (drop_bit 8 t), ucast t]),
       lacing_bits = (\<lambda>kind invisible.
          (case kind of LACING_XIPH \<Rightarrow> 2 | LACING_FIXED \<Rightarrow> 4 | LACING_EBML \<Rightarrow> 6 | _ \<Rightarrow> 0)
          OR (if invisible then 8 else 0)),
       keyframe_bit = 7, discardable_bit = 0,
       size_table = (\<lambda>kind sizes. []) \<rparr> \<and>
   (\<exists>block1.
      AddFrame \<lparr> track_number = 1, track_timestamp_scale = 1000000 \<rparr> 40
        \<lparr> myBuffer = Some [1, 2, 3], mySize = 3, bValidValue = True,
          myFreeBuffer = (None :: unit option), bInternalBuffer = False \<rparr> LACING_AUTO False
        ((KaxSimpleBlock_ctor
            \<lparr> any_Timestamp = 0, any_LocalTimestamp = 0, any_TrackNumber = 0,
              any_FirstFrameLocation = 0 \<rparr>)
          \<lparr> ParentCluster :=
              Some \<lparr> cluster_base_timestamp = 0, cluster_stream_position = 0 \<rparr> \<rparr>)
        = Inr (True, block1) \<and>
      RenderData
        \<lparr> track_number_bytes = (\<lambda>n. [ucast n OR 128]),
          timestamp_bytes = (\<lambda>t. [ucast (drop_bit 8 t), ucast t]),
          lacing_bits = (\<lambda>kind invisible.
             (case kind of LACING_XIPH \<Rightarrow> 2 | LACING_FIXED \<Rightarrow> 4 | LACING_EBML \<Rightarrow> 6 | _ \<Rightarrow> 0)
             OR (if invisible then 8 else 0)),
          keyframe_bit = 7, discardable_bit = 0,
          size_table = (\<lambda>kind sizes. []) \<rparr> block1
        = Inr [129, 0, 0, 128, 1, 2, 3] \<and>
      bit ([129, 0, 0, 128, 1, 2, 3 :: binary] ! 3) (7 :: nat) \<and>
      \<not> bit ([129, 0, 0, 128, 1, 2, 3 :: binary] ! 3) (0 :: nat))"
proof -
  let ?W = "\<lparr> track_number_bytes = (\<lambda>n. [ucast n OR 128]),
       timestamp_bytes = (\<lambda>t. [ucast (drop_bit 8 t), ucast t]),
       lacing_bits = (\<lambda>kind invisible.
          (case kind of LACING_XIPH \<Rightarrow> 2 | LACING_FIXED \<Rightarrow> 4 | LACING_EBML \<Rightarrow> 6 | _ \<Rightarrow> 0)
          OR (if invisible then 8 else 0)),
       keyframe_bit = 7, discardable_bit = 0,
       size_table = (\<lambda>kind sizes. []) \<rparr>"
  let ?u = "\<lparr> any_Timestamp = 0, any_LocalTimestamp = 0, any_TrackNumber = 0,
              any_FirstFrameLocation = 0 \<rparr>"
  let ?c = "\<lparr> cluster_base_timestamp = 0, cluster_stream_position = 0 \<rparr>"
  let ?t = "\<lparr> track_number = 1, track_timestamp_scale = 1000000 \<rparr>"
  let ?buf = "\<lparr> myBuffer = Some [1, 2, 3], mySize = 3, bValidValue = True,
          myFreeBuffer = (None :: unit option), bInternalBuffer = False \<rparr>"
  let ?fresh = "(KaxSimpleBlock_ctor ?u :: unit KaxSimpleBlock)\<lparr> ParentCluster := Some ?c \<rparr>"
  let ?b = "?fresh\<lparr> myBuffers := [?buf], SizeList := [3], Timestamp := 40, TrackNumber := 1 \<rparr>"
  have ok: "flags_layout_ok ?W"
    by (simp add: flags_layout_ok_def bit_or_iff bit_iff_odd)
  have add: "AddFrame ?t 40 ?buf LACING_AUTO False ?fresh = Inr (True, ?b)"
    by (simp add: AddFrame_def Let_def encode_relative_def fits_int16_def
          KaxSimpleBlock_ctor_def KaxInternalBlock_ctor_def KaxInternalBlock.extend_def
          KaxSimpleBlock.fields_def)
  have ren: "RenderData ?W ?b = Inr [129, 0, 0, 128, 1, 2, 3]"
    by (simp add: RenderData_def RenderHead_def head_flags_def frame_payload_def Buffer_def
          Size_def frame_sizes_def IsKeyframe_def IsDiscardable_def
          KaxSimpleBlock_ctor_def KaxInternalBlock_ctor_def KaxInternalBlock.extend_def
          KaxSimpleBlock.fields_def)
  have pos: "flags_position ?W ?b = 3"
    by (simp add: flags_position_def)
  from KaxSimpleBlock_default_flags
         [where W = ?W and u = ?u and cluster = ?c and ?track1.0 = ?t and ?timestamp1.0 = 40
            and ?buffer1.0 = ?buf and ?lacing1.0 = LACING_AUTO and ?invisible1.0 = False
            and ?ok1.0 = True and ?block1.0 = ?b and ?bytes1.0 = "[129, 0, 0, 128, 1, 2, 3]"]
       ok add ren
  have "bit ([129, 0, 0, 128, 1, 2, 3 :: binary] ! flags_position ?W ?b) (keyframe_bit ?W) \<and>
        \<not> bit ([129, 0, 0, 128, 1, 2, 3 :: binary] ! flags_position ?W ?b) (discardable_bit ?W)"
    by blast
  then have "bit ([129, 0, 0, 128, 1, 2, 3 :: binary] ! 3) (7 :: nat) \<and>
        \<not> bit ([129, 0, 0, 128, 1, 2, 3 :: binary] ! 3) (0 :: nat)"
    unfolding pos by simp
  with ok add ren show ?thesis by blast
qed

lemma scaled_never_40: "(1000000 :: 64 word) * x \<noteq> 40"
proof
  assume eq: "(1000000 :: 64 word) * x = 40"
  have "(1000000 :: 64 word) * x = 2 ^ 6 * (15625 * x)" by simp
  then have "take_bit 6 ((1000000 :: 64 word) * x) = 0"
    by (simp only: take_bit_eq_0_iff dvd_triv_left)
  moreover have "take_bit 6 (40 :: 64 word) = 40" by simp
  ultimately show False using eq by simp
qed

text \<open>
  C4 fails on the code. A block is constructed, put in a cluster with base timestamp 0
  and given its first frame at timestamp 40; it is the block of a group whose parent
  track, of timestamp scale 1000000, is set. \<^verbatim>\<open>KaxInternalBlock::GlobalTimestamp()\<close>
  returns the stored \<open>Timestamp\<close>, 40, and it returns the same 40 for the group with
  no parent track, where \<^verbatim>\<open>GlobalTimestampScale()\<close> is a failed assertion. The claimed
  value, \<open>parent_track.timestamp_scale * (cluster.base_timestamp + relative_timestamp)\<close>,
  is a multiple of 1000000 and is not 40 for any relative timestamp the block may hold.
  The header marks the function "todo: this method needs to be changed" and calls the
  member it returns a temporary, non-scaled timestamp.
\<close>

theorem GlobalTimestamp_unscaled:
  "AddFrame \<lparr> track_number = 1, track_timestamp_scale = 1000000 \<rparr> 40
     \<lparr> myBuffer = Some [1, 2, 3], mySize = 3, bValidValue = True,
       myFreeBuffer = (None :: unit option), bInternalBuffer = False \<rparr> LACING_AUTO False
     ((KaxInternalBlock_ctor
         \<lparr> any_Timestamp = 0, any_LocalTimestamp = 0, any_TrackNumber = 0,
           any_FirstFrameLocation = 0 \<rparr> False)
       \<lparr> ParentCluster :=
           Some \<lparr> cluster_base_timestamp = 0, cluster_stream_position = 0 \<rparr> \<rparr>)
   = Inr (True,
       \<lparr> myBuffers = [\<lparr> myBuffer = Some [1, 2, 3], mySize = 3, bValidValue = True,
                        myFreeBuffer = None, bInternalBuffer = False \<rparr>],
         SizeList = [3], Timestamp = 40, LocalTimestamp = 0, bLocalTimestampUsed = False,
         TrackNumber = 1, mLacing = LACING_AUTO, mInvisible = False, FirstFrameLocation = 0,
         ParentCluster = Some \<lparr> cluster_base_timestamp = 0, cluster_stream_position = 0 \<rparr>,
         bIsSimple = False \<rparr>) \<and>
   GlobalTimestampScale
     (SetParentTrack \<lparr> track_number = 1, track_timestamp_scale = 1000000 \<rparr>
        \<lparr> group_block =
            \<lparr> myBuffers = [\<lparr> myBuffer = Some [1, 2, 3], mySize = 3, bValidValue = True,
                             myFreeBuffer = (None :: unit option), bInternalBuffer = False \<rparr>],
              SizeList = [3], Timestamp = 40, LocalTimestamp = 0, bLocalTimestampUsed = False,
              TrackNumber = 1, mLacing = LACING_AUTO, mInvisible = False,
              FirstFrameLocation = 0,
              ParentCluster =
                Some \<lparr> cluster_base_timestamp = 0, cluster_stream_position = 0 \<rparr>,
              bIsSimple = False \<rparr>,
          group_duration = None, group_references = [],
          group_ParentCluster =
            Some \<lparr> cluster_base_timestamp = 0, cluster_stream_position = 0 \<rparr>,
          group_ParentTrack = None \<rparr>) = Inr 1000000 \<and>
   GlobalTimestampScale
     \<lparr> group_block =
         \<lparr> myBuffers = [\<lparr> myBuffer = Some [1, 2, 3], mySize = 3, bValidValue = True,
                          myFreeBuffer = (None :: unit option), bInternalBuffer = False \<rparr>],
           SizeList = [3], Timestamp = 40, LocalTimestamp = 0, bLocalTimestampUsed = False,
           TrackNumber = 1, mLacing = LACING_AUTO, mInvisible = False,
           FirstFrameLocation = 0,
           ParentCluster =
             Some \<lparr> cluster_base_timestamp = 0, cluster_stream_position = 0 \<rparr>,
           bIsSimple = False \<rparr>,
       group_duration = None, group_references = [],
       group_ParentCluster =
         Some \<lparr> cluster_base_timestamp = 0, cluster_stream_position = 0 \<rparr>,
       group_ParentTrack = None \<rparr> = Inl AssertionFailure \<and>
   GlobalTimestamp
     \<lparr> myBuffers = [\<lparr> myBuffer = Some [1, 2, 3], mySize = 3, bValidValue = True,
                      myFreeBuffer = (None :: unit option), bInternalBuffer = False \<rparr>],
       SizeList = [3], Timestamp = 40, LocalTimestamp = 0, bLocalTimestampUsed = False,
       TrackNumber = 1, mLacing = LACING_AUTO, mInvisible = False, FirstFrameLocation = 0,
       ParentCluster = Some \<lparr> cluster_base_timestamp = 0, cluster_stream_position = 0 \<rparr>,
       bIsSimple = False \<rparr> = 40 \<and>
   (\<forall>relative.
      spec_GlobalTimestamp \<lparr> track_number = 1, track_timestamp_scale = 1000000 \<rparr>
        \<lparr> cluster_base_timestamp = 0, cluster_stream_position = 0 \<rparr>
        \<lparr> myBuffers = [\<lparr> myBuffer = Some [1, 2, 3], mySize = 3, bValidValue = True,
                         myFreeBuffer = (None :: unit option), bInternalBuffer = False \<rparr>],
          SizeList = [3], Timestamp = 40, LocalTimestamp = relative,
          bLocalTimestampUsed = False, TrackNumber = 1, mLacing = LACING_AUTO,
          mInvisible = False, FirstFrameLocation = 0,
          ParentCluster = Some \<lparr> cluster_base_timestamp = 0, cluster_stream_position = 0 \<rparr>,
          bIsSimple = False \<rparr> \<noteq> 40)"
  by (simp add: AddFrame_def Let_def encode_relative_def fits_int16_def
        KaxInternalBlock_ctor_def GlobalTimestampScale_def SetParentTrack_def
        GlobalTimestamp_def spec_GlobalTimestamp_def scaled_never_40)

subsection \<open>Functions written from the specification\<close>

lemma SameSize_iff: "SameSize sizes = (\<forall>a \<in> set sizes. \<forall>b \<in> set sizes. a = b)"
  by (induction sizes rule: SameSize.induct) auto

lemma unequal_pair_not_SameSize:
  assumes "i < length sizes" "j < length sizes" "sizes ! i \<noteq> sizes ! j"
  shows "\<not> SameSize sizes"
  using assms nth_mem unfolding SameSize_iff by blast

text \<open>
  C1. For a frame-size sequence of length at least 2 with two unequal sizes,
  \<^verbatim>\<open>GetBestLacingType\<close> returns a kind that can express the sequence and whose table is
  no larger than the table of any kind that can express it (None and FixedSize cannot,
  so the kind is Xiph or EBML); when the Xiph and EBML tables have the same size it
  returns EBML. This holds for every byte accounting.
\<close>

theorem GetBestLacingType_smallest:
  assumes "2 \<le> length (frame_sizes this)"
    and "i < length (frame_sizes this)" and "j < length (frame_sizes this)"
    and "frame_sizes this ! i \<noteq> frame_sizes this ! j"
  shows "lacing_expresses (GetBestLacingType acc this) (frame_sizes this) \<and>
         (\<forall>kind. lacing_expresses kind (frame_sizes this) \<longrightarrow>
            lacing_table_size acc (GetBestLacingType acc this) (frame_sizes this)
              \<le> lacing_table_size acc kind (frame_sizes this)) \<and>
         (XiphLacingSize acc (frame_sizes this) = EbmlLacingSize acc (frame_sizes this) \<longrightarrow>
            GetBestLacingType acc this = LACING_EBML)"
proof -
  let ?sizes = "frame_sizes this"
  have ns: "\<not> SameSize ?sizes"
    using assms(2-4) by (rule unequal_pair_not_SameSize)
  have nf: "\<not> lacing_expresses LACING_FIXED ?sizes"
    using ns by (simp add: SameSize_iff list_all_iff)
  have nn: "\<not> lacing_expresses LACING_NONE ?sizes"
    using assms(1) by simp
  have best: "GetBestLacingType acc this =
      (if XiphLacingSize acc ?sizes < EbmlLacingSize acc ?sizes then LACING_XIPH
       else LACING_EBML)"
    using ns assms(1) by (simp add: GetBestLacingType_def)
  have "lacing_table_size acc (GetBestLacingType acc this) ?sizes
          \<le> lacing_table_size acc kind ?sizes" if "lacing_expresses kind ?sizes" for kind
    using that nf nn by (cases kind) (simp_all add: best)
  then show ?thesis by (simp add: best)
qed

text \<open>
  The witness is the scenario of section 8 of the specification, frames of sizes 100,
  100, 250 and 90, with one byte per Xiph size below 255 and variable-length integers of
  one byte below 127 (signed: between -64 and 64) and two bytes above: the Xiph table
  takes 3 bytes, the EBML table 4.
\<close>

theorem GetBestLacingType_smallest_witness:
  "GetBestLacingType
     \<lparr> XiphCodedLength = (\<lambda>s. nat (s div 255 + 1)),
       CodedSizeLength = (\<lambda>s. if s < 127 then 1 else 2),
       CodedSizeLengthSigned = (\<lambda>d. if -64 < d \<and> d < 64 then 1 else 2) \<rparr>
     ((KaxInternalBlock_ctor
         \<lparr> any_Timestamp = 0, any_LocalTimestamp = 0, any_TrackNumber = 1,
           any_FirstFrameLocation = 0 \<rparr> False :: unit KaxInternalBlock)
       \<lparr> SizeList := [100, 100, 250, 90] \<rparr>) = LACING_XIPH \<and>
   lacing_table_size
     \<lparr> XiphCodedLength = (\<lambda>s. nat (s div 255 + 1)),
       CodedSizeLength = (\<lambda>s. if s < 127 then 1 else 2),
       CodedSizeLengthSigned = (\<lambda>d. if -64 < d \<and> d < 64 then 1 else 2) \<rparr>
     LACING_XIPH [100, 100, 250, 90] = 3 \<and>
   lacing_table_size
     \<lparr> XiphCodedLength = (\<lambda>s. nat (s div 255 + 1)),
       CodedSizeLength = (\<lambda>s. if s < 127 then 1 else 2),
       CodedSizeLengthSigned = (\<lambda>d. if -64 < d \<and> d < 64 then 1 else 2) \<rparr>
     LACING_EBML [100, 100, 250, 90] = 4"
proof -
  let ?acc = "\<lparr> XiphCodedLength = (\<lambda>s. nat (s div 255 + 1)),
       CodedSizeLength = (\<lambda>s. if s < 127 then 1 else 2),
       CodedSizeLengthSigned = (\<lambda>d. if -64 < d \<and> d < 64 then 1 else 2) \<rparr>"
  let ?b = "(KaxInternalBlock_ctor
         \<lparr> any_Timestamp = 0, any_LocalTimestamp = 0, any_TrackNumber = 1,
           any_FirstFrameLocation = 0 \<rparr> False :: unit KaxInternalBlock)
       \<lparr> SizeList := [100, 100, 250, 90] \<rparr>"
  have fs: "frame_sizes ?b = [100, 100, 250, 90]"
    by (simp add: frame_sizes_def KaxInternalBlock_ctor_def)
  have h: "2 \<le> length (frame_sizes ?b)" "1 < length (frame_sizes ?b)"
    "2 < length (frame_sizes ?b)" "frame_sizes ?b ! 1 \<noteq> frame_sizes ?b ! 2"
    by (simp_all add: fs)
  have x: "lacing_table_size ?acc LACING_XIPH [100, 100, 250, 90] = 3"
    by (simp add: XiphLacingSize_def)
  have e: "lacing_table_size ?acc LACING_EBML [100, 100, 250, 90] = 4"
    by (simp add: EbmlLacingSize_def)
  have "lacing_expresses LACING_XIPH (frame_sizes ?b)" by simp
  with GetBestLacingType_smallest [OF h, of ?acc]
  have "lacing_table_size ?acc (GetBestLacingType ?acc ?b) (frame_sizes ?b)
          \<le> lacing_table_size ?acc LACING_XIPH (frame_sizes ?b)"
    by blast
  then have "GetBestLacingType ?acc ?b \<noteq> LACING_EBML"
    using x e by (auto simp: fs)
  moreover have "GetBestLacingType ?acc ?b = LACING_XIPH \<or> GetBestLacingType ?acc ?b = LACING_EBML"
    by (simp add: GetBestLacingType_def fs Let_def)
  ultimately show ?thesis using x e by simp
qed

text \<open>
  C2. When the frame's timestamp delta from the cluster's base timestamp does not fit a
  signed 16-bit value (a delta of 32768, for one), \<^verbatim>\<open>AddFrame\<close> returns false and the
  block it leaves is the block it found: no frame appended, sizes, timestamp and track
  unchanged. With a delta of exactly 32767, a valid buffer and a matching track it
  returns true and the block has one frame more.
\<close>

theorem AddFrame_timestamp_range:
  "(ParentCluster this = Some cluster \<and>
    \<not> fits_int16 (uint timestamp - uint (cluster_base_timestamp cluster)) \<longrightarrow>
      AddFrame track timestamp buffer lacing invisible this = Inr (False, this)) \<and>
   (ParentCluster this = Some cluster \<and>
    uint timestamp - uint (cluster_base_timestamp cluster) = 32768 \<longrightarrow>
      AddFrame track timestamp buffer lacing invisible this = Inr (False, this)) \<and>
   (ParentCluster this = Some cluster \<and>
    uint timestamp - uint (cluster_base_timestamp cluster) = 32767 \<and>
    bValidValue buffer \<and> (myBuffers this = [] \<or> track_number track = TrackNumber this) \<longrightarrow>
      (\<exists>this'. AddFrame track timestamp buffer lacing invisible this = Inr (True, this') \<and>
         myBuffers this' = myBuffers this @ [buffer] \<and>
         NumberFrames this' = NumberFrames this + 1))"
  by (auto simp: AddFrame_def Let_def encode_relative_def fits_int16_def NumberFrames_def)

theorem AddFrame_timestamp_range_witness:
  "AddFrame \<lparr> track_number = 1, track_timestamp_scale = 1000000 \<rparr> 33768
     \<lparr> myBuffer = Some [1, 2, 3], mySize = 3, bValidValue = True,
       myFreeBuffer = (None :: unit option), bInternalBuffer = False \<rparr> LACING_AUTO False
     ((KaxInternalBlock_ctor
         \<lparr> any_Timestamp = 7, any_LocalTimestamp = 7, any_TrackNumber = 7,
           any_FirstFrameLocation = 7 \<rparr> False)
       \<lparr> ParentCluster :=
           Some \<lparr> cluster_base_timestamp = 1000, cluster_stream_position = 0 \<rparr> \<rparr>)
   = Inr (False,
       (KaxInternalBlock_ctor
         \<lparr> any_Timestamp = 7, any_LocalTimestamp = 7, any_TrackNumber = 7,
           any_FirstFrameLocation = 7 \<rparr> False)
       \<lparr> ParentCluster :=
           Some \<lparr> cluster_base_timestamp = 1000, cluster_stream_position = 0 \<rparr> \<rparr>) \<and>
   (\<exists>this'.
      AddFrame \<lparr> track_number = 1, track_timestamp_scale = 1000000 \<rparr> 33767
        \<lparr> myBuffer = Some [1, 2, 3], mySize = 3, bValidValue = True,
          myFreeBuffer = (None :: unit option), bInternalBuffer = False \<rparr> LACING_AUTO False
        ((KaxInternalBlock_ctor
            \<lparr> any_Timestamp = 7, any_LocalTimestamp = 7, any_TrackNumber = 7,
              any_FirstFrameLocation = 7 \<rparr> False)
          \<lparr> ParentCluster :=
              Some \<lparr> cluster_base_timestamp = 1000, cluster_stream_position = 0 \<rparr> \<rparr>)
        = Inr (True, this') \<and> NumberFrames this' = 1)"
proof -
  let ?t = "\<lparr> track_number = 1, track_timestamp_scale = 1000000 \<rparr>"
  let ?c = "\<lparr> cluster_base_timestamp = 1000, cluster_stream_position = 0 \<rparr>"
  let ?buf = "\<lparr> myBuffer = Some [1, 2, 3], mySize = 3, bValidValue = True,
       myFreeBuffer = (None :: unit option), bInternalBuffer = False \<rparr>"
  let ?b = "(KaxInternalBlock_ctor
         \<lparr> any_Timestamp = 7, any_LocalTimestamp = 7, any_TrackNumber = 7,
           any_FirstFrameLocation = 7 \<rparr> False) \<lparr> ParentCluster := Some ?c \<rparr>"
  have pc: "ParentCluster ?b = Some ?c" by simp
  have empty: "myBuffers ?b = []" "NumberFrames ?b = 0"
    by (simp_all add: KaxInternalBlock_ctor_def NumberFrames_def)
  have big: "\<not> fits_int16 (uint (33768 :: 64 word) - uint (cluster_base_timestamp ?c))"
    "uint (33768 :: 64 word) - uint (cluster_base_timestamp ?c) = 32768"
    by (simp_all add: fits_int16_def)
  have max: "uint (33767 :: 64 word) - uint (cluster_base_timestamp ?c) = 32767"
    by simp
  have valid: "bValidValue ?buf" by simp
  from AddFrame_timestamp_range [of ?b ?c 33768 ?t ?buf LACING_AUTO False] pc big
  have fails: "AddFrame ?t 33768 ?buf LACING_AUTO False ?b = Inr (False, ?b)"
    by blast
  from AddFrame_timestamp_range [of ?b ?c 33767 ?t ?buf LACING_AUTO False] pc max valid empty
  have "\<exists>this'. AddFrame ?t 33767 ?buf LACING_AUTO False ?b = Inr (True, this') \<and>
          NumberFrames this' = 1"
    by auto
  with fails show ?thesis by blast
qed

text \<open>
  C6, as the specification states it, fails on a handle that was constructed with the
  policy force-Compact: its live variant is Compact, and \<^verbatim>\<open>ReplaceSimpleByGroup\<close> returns
  failure and leaves the Compact block of three frames in place.
\<close>

theorem ReplaceSimpleByGroup_force_compact_counterexample:
  "ReplaceSimpleByGroup
     \<lparr> any_Timestamp = 0, any_LocalTimestamp = 0, any_TrackNumber = 0,
       any_FirstFrameLocation = 0 \<rparr>
     ((KaxBlockBlob_ctor BLOCK_BLOB_ALWAYS_SIMPLE :: unit KaxBlockBlob)
       \<lparr> Block := simpleblock
           ((KaxSimpleBlock_ctor
               \<lparr> any_Timestamp = 0, any_LocalTimestamp = 0, any_TrackNumber = 0,
                 any_FirstFrameLocation = 0 \<rparr>)
             \<lparr> myBuffers :=
                 [\<lparr> myBuffer = Some [1], mySize = 1, bValidValue = True,
                    myFreeBuffer = None, bInternalBuffer = False \<rparr>,
                  \<lparr> myBuffer = Some [2, 2], mySize = 2, bValidValue = True,
                    myFreeBuffer = None, bInternalBuffer = False \<rparr>,
                  \<lparr> myBuffer = Some [3, 3, 3], mySize = 3, bValidValue = True,
                    myFreeBuffer = None, bInternalBuffer = False \<rparr>],
               SizeList := [1, 2, 3], Timestamp := 40, LocalTimestamp := 40,
               TrackNumber := 5 \<rparr>) \<rparr>)
   = (False,
      (KaxBlockBlob_ctor BLOCK_BLOB_ALWAYS_SIMPLE :: unit KaxBlockBlob)
       \<lparr> Block := simpleblock
           ((KaxSimpleBlock_ctor
               \<lparr> any_Timestamp = 0, any_LocalTimestamp = 0, any_TrackNumber = 0,
                 any_FirstFrameLocation = 0 \<rparr>)
             \<lparr> myBuffers :=
                 [\<lparr> myBuffer = Some [1], mySize = 1, bValidValue = True,
                    myFreeBuffer = None, bInternalBuffer = False \<rparr>,
                  \<lparr> myBuffer = Some [2, 2], mySize = 2, bValidValue = True,
                    myFreeBuffer = None, bInternalBuffer = False \<rparr>,
                  \<lparr> myBuffer = Some [3, 3, 3], mySize = 3, bValidValue = True,
                    myFreeBuffer = None, bInternalBuffer = False \<rparr>],
               SizeList := [1, 2, 3], Timestamp := 40, LocalTimestamp := 40,
               TrackNumber := 5 \<rparr>) \<rparr>) \<and>
   IsSimpleBlock (KaxBlockBlob_ctor BLOCK_BLOB_ALWAYS_SIMPLE :: unit KaxBlockBlob)"
  by (simp add: ReplaceSimpleByGroup_def KaxBlockBlob_ctor_def conversion_permitted_def
        IsSimpleBlock_def)

text \<open>
  C6, amended. On a handle whose live variant is Compact and whose construction policy
  permits conversion (any policy but force-Compact), \<^verbatim>\<open>ReplaceSimpleByGroup\<close> returns
  success and leaves a live Group whose block reports the frames of the Compact block
  (same count, same sizes, same buffers), its track number and its timestamp, with no
  references. On a handle forced to Compact whose live variant is Compact it returns
  failure and changes nothing. On a handle whose live variant is a Group it returns
  success and changes nothing.
\<close>

theorem ReplaceSimpleByGroup_keeps_frames:
  "(bUseSimpleBlock this \<and> SimpleBlockMode this \<noteq> BLOCK_BLOB_ALWAYS_SIMPLE \<and>
    Block this = simpleblock old \<longrightarrow>
      (\<exists>g this'. ReplaceSimpleByGroup u this = (True, this') \<and>
         \<not> IsSimpleBlock this' \<and> Block this' = group g \<and>
         SimpleBlockMode this' = SimpleBlockMode this \<and>
         NumberFrames (group_block g) = NumberFrames old \<and>
         SizeList (group_block g) = SizeList old \<and>
         myBuffers (group_block g) = myBuffers old \<and>
         TrackNum (group_block g) = TrackNum old \<and>
         GlobalTimestamp (group_block g) = GlobalTimestamp old \<and>
         GetRelativeTimestamp (group_block g) = GetRelativeTimestamp old \<and>
         ReferenceCount g = 0)) \<and>
   (bUseSimpleBlock this \<and> SimpleBlockMode this = BLOCK_BLOB_ALWAYS_SIMPLE \<longrightarrow>
      ReplaceSimpleByGroup u this = (False, this)) \<and>
   (\<not> bUseSimpleBlock this \<longrightarrow> ReplaceSimpleByGroup u this = (True, this))"
  by (simp add: ReplaceSimpleByGroup_def group_of_simpleblock_def KaxBlockGroup_ctor_def
        KaxInternalBlock_ctor_def IsSimpleBlock_def NumberFrames_def TrackNum_def
        GlobalTimestamp_def GetRelativeTimestamp_def ReferenceCount_def Let_def
        conversion_permitted_def)

text \<open>
  The witness is the scenario of section 8 of the specification: a Compact block with
  three frames in a handle that allows either variant, converted, and the Group
  converted once more.
\<close>

theorem ReplaceSimpleByGroup_keeps_frames_witness:
  "(\<exists>g this'.
      ReplaceSimpleByGroup
        \<lparr> any_Timestamp = 0, any_LocalTimestamp = 0, any_TrackNumber = 0,
          any_FirstFrameLocation = 0 \<rparr>
        ((KaxBlockBlob_ctor BLOCK_BLOB_SIMPLE_AUTO :: unit KaxBlockBlob)
          \<lparr> Block := simpleblock
              ((KaxSimpleBlock_ctor
                  \<lparr> any_Timestamp = 0, any_LocalTimestamp = 0, any_TrackNumber = 0,
                    any_FirstFrameLocation = 0 \<rparr>)
                \<lparr> myBuffers :=
                    [\<lparr> myBuffer = Some [1], mySize = 1, bValidValue = True,
                       myFreeBuffer = None, bInternalBuffer = False \<rparr>,
                     \<lparr> myBuffer = Some [2, 2], mySize = 2, bValidValue = True,
                       myFreeBuffer = None, bInternalBuffer = False \<rparr>,
                     \<lparr> myBuffer = Some [3, 3, 3], mySize = 3, bValidValue = True,
                       myFreeBuffer = None, bInternalBuffer = False \<rparr>],
                  SizeList := [1, 2, 3], Timestamp := 40, LocalTimestamp := 40,
                  TrackNumber := 5 \<rparr>) \<rparr>) = (True, this') \<and>
      Block this' = group g \<and> \<not> IsSimpleBlock this' \<and>
      NumberFrames (group_block g) = 3 \<and> SizeList (group_block g) = [1, 2, 3] \<and>
      TrackNum (group_block g) = 5 \<and> GlobalTimestamp (group_block g) = 40 \<and>
      ReferenceCount g = 0 \<and>
      ReplaceSimpleByGroup
        \<lparr> any_Timestamp = 0, any_LocalTimestamp = 0, any_TrackNumber = 0,
          any_FirstFrameLocation = 0 \<rparr> this' = (True, this'))"
proof -
  let ?u = "\<lparr> any_Timestamp = 0, any_LocalTimestamp = 0, any_TrackNumber = 0,
              any_FirstFrameLocation = 0 \<rparr>"
  let ?old = "(KaxSimpleBlock_ctor ?u :: unit KaxSimpleBlock)
                \<lparr> myBuffers :=
                    [\<lparr> myBuffer = Some [1], mySize = 1, bValidValue = True,
                       myFreeBuffer = None, bInternalBuffer = False \<rparr>,
                     \<lparr> myBuffer = Some [2, 2], mySize = 2, bValidValue = True,
                       myFreeBuffer = None, bInternalBuffer = False \<rparr>,
                     \<lparr> myBuffer = Some [3, 3, 3], mySize = 3, bValidValue = True,
                       myFreeBuffer = None, bInternalBuffer = False \<rparr>],
                  SizeList := [1, 2, 3], Timestamp := 40, LocalTimestamp := 40,
                  TrackNumber := 5 \<rparr>"
  let ?blob = "(KaxBlockBlob_ctor BLOCK_BLOB_SIMPLE_AUTO :: unit KaxBlockBlob)
                 \<lparr> Block := simpleblock ?old \<rparr>"
  have live: "bUseSimpleBlock ?blob" "SimpleBlockMode ?blob \<noteq> BLOCK_BLOB_ALWAYS_SIMPLE"
    "Block ?blob = simpleblock ?old"
    by (simp_all add: KaxBlockBlob_ctor_def)
  have old: "NumberFrames ?old = 3" "SizeList ?old = [1, 2, 3]" "TrackNum ?old = 5"
    "GlobalTimestamp ?old = 40"
    by (simp_all add: NumberFrames_def TrackNum_def GlobalTimestamp_def)
  from ReplaceSimpleByGroup_keeps_frames [of ?blob ?old ?u] live
  obtain g this' where first: "ReplaceSimpleByGroup ?u ?blob = (True, this')"
    and props: "\<not> IsSimpleBlock this'" "Block this' = group g"
      "NumberFrames (group_block g) = NumberFrames ?old"
      "SizeList (group_block g) = SizeList ?old"
      "TrackNum (group_block g) = TrackNum ?old"
      "GlobalTimestamp (group_block g) = GlobalTimestamp ?old"
      "ReferenceCount g = 0"
    by blast
  from ReplaceSimpleByGroup_keeps_frames [of this' ?old ?u] props(1)
  have again: "ReplaceSimpleByGroup ?u this' = (True, this')"
    by (simp add: IsSimpleBlock_def)
  from first props again show ?thesis
    unfolding old by blast
qed

end
